theory Spec2Isabelle
  imports Complex_Main "HOL-Library.Word"
begin

section \<open>JavaScript values used by \<^verbatim>\<open>validation.ts\<close>\<close>

text \<open>
  A JavaScript string is a sequence of UTF-16 code units. The regular expressions of
  \<^verbatim>\<open>validatePhysics\<close> carry no \<^verbatim>\<open>u\<close> flag, so they match code unit by code unit.
\<close>

type_synonym codeunit = "16 word"
type_synonym jsstring = "codeunit list"

text \<open>A character of a source literal (code points below 256) as a code unit.\<close>

definition cu :: "char \<Rightarrow> codeunit" where
  "cu c = of_char c"

definition js :: "string \<Rightarrow> jsstring" where
  "js s = map cu s"

text \<open>
  The object literal that \<^verbatim>\<open>validatePhysics\<close> returns is a JavaScript object: an ordered
  list of named properties. The numbers of the source (0, 1.0, 1.5, 2.0, 30, 45, 90) are
  all exact as IEEE doubles and are only compared, never computed with, so \<^typ>\<open>real\<close>
  carries them without loss.
\<close>

datatype jsval =
    JUndefined
  | JBool bool
  | JNum real
  | JObj "(string \<times> jsval) list"

text \<open>Reading property \<open>k\<close>: \<open>None\<close> when the value has no such own property.\<close>

fun field :: "string \<Rightarrow> jsval \<Rightarrow> jsval option" where
  "field k (JObj kvs) = map_of kvs k"
| "field k _ = None"

fun keys :: "jsval \<Rightarrow> string list" where
  "keys (JObj kvs) = map fst kvs"
| "keys _ = []"

section \<open>Regular expressions\<close>

text \<open>
  The two patterns of the source are sequences of terms; each term is an atom (a pattern
  character, the class escapes \<^verbatim>\<open>\d\<close> and \<^verbatim>\<open>\s\<close>, or a bracketed class) with an optional
  greedy quantifier \<^verbatim>\<open>+\<close> or \<^verbatim>\<open>*\<close>.
\<close>

datatype re_atom =
    PatternChar codeunit
  | Digit
  | Space
  | CharClass "codeunit list"

datatype re_quant = One | OneOrMore | ZeroOrMore

datatype re_term = Term re_atom re_quant

type_synonym re_pattern = "re_term list"

text \<open>
  \<^verbatim>\<open>\s\<close> is WhiteSpace or LineTerminator of ECMAScript: TAB, LF, VT, FF, CR, SP, NBSP,
  U+1680, U+2000 to U+200A, LS, PS, U+202F, U+205F, U+3000 and the BOM.
\<close>

definition isWhiteSpace :: "codeunit \<Rightarrow> bool" where
  "isWhiteSpace c \<longleftrightarrow>
     c \<in> set [0x0009, 0x000A, 0x000B, 0x000C, 0x000D, 0x0020, 0x00A0, 0x1680,
              0x2028, 0x2029, 0x202F, 0x205F, 0x3000, 0xFEFF]
     \<or> (0x2000 \<le> c \<and> c \<le> 0x200A)"

definition isDigit :: "codeunit \<Rightarrow> bool" where
  "isDigit c \<longleftrightarrow> 0x30 \<le> c \<and> c \<le> 0x39"

fun atomMatches :: "re_atom \<Rightarrow> codeunit \<Rightarrow> bool" where
  "atomMatches (PatternChar p) c = (c = p)"
| "atomMatches Digit c = isDigit c"
| "atomMatches Space c = isWhiteSpace c"
| "atomMatches (CharClass cs) c = (c \<in> set cs)"

text \<open>
  The backtracking matcher, anchored at the head of the input: the number of code units
  the first successful match consumes. A quantified atom is greedy: it first tries to take
  one more code unit and gives it back when the rest of the pattern fails.
\<close>

fun matchTerms :: "re_pattern \<Rightarrow> jsstring \<Rightarrow> nat option" where
  "matchTerms [] s = Some 0"
| "matchTerms (Term a One # ts) [] = None"
| "matchTerms (Term a One # ts) (c # cs) =
     (if atomMatches a c then map_option Suc (matchTerms ts cs) else None)"
| "matchTerms (Term a OneOrMore # ts) [] = None"
| "matchTerms (Term a OneOrMore # ts) (c # cs) =
     (if atomMatches a c then map_option Suc (matchTerms (Term a ZeroOrMore # ts) cs) else None)"
| "matchTerms (Term a ZeroOrMore # ts) [] = matchTerms ts []"
| "matchTerms (Term a ZeroOrMore # ts) (c # cs) =
     (case (if atomMatches a c then map_option Suc (matchTerms (Term a ZeroOrMore # ts) cs) else None) of
        Some e \<Rightarrow> Some e
      | None \<Rightarrow> matchTerms ts (c # cs))"

text \<open>
  A \<^verbatim>\<open>RegExp\<close> object: its pattern, the flags that make \<^verbatim>\<open>test\<close> stateful, and the
  mutable \<^verbatim>\<open>lastIndex\<close>.
\<close>

record RegExp =
  pattern :: re_pattern
  global :: bool
  sticky :: bool
  lastIndex :: nat

text \<open>A regular expression literal without flags, as both literals of the source are.\<close>

definition RegExp_literal :: "re_pattern \<Rightarrow> RegExp" where
  "RegExp_literal p = \<lparr>pattern = p, global = False, sticky = False, lastIndex = 0\<rparr>"

text \<open>
  The search loop of \<^verbatim>\<open>RegExpBuiltinExec\<close>: \<open>s\<close> is the input from index \<open>i\<close> on. It
  returns the end index of the first match; a sticky expression tries index \<open>i\<close> only.
\<close>

fun scan :: "re_pattern \<Rightarrow> bool \<Rightarrow> jsstring \<Rightarrow> nat \<Rightarrow> nat option" where
  "scan p st [] i = map_option (\<lambda>n. i + n) (matchTerms p [])"
| "scan p st (c # cs) i =
     (case matchTerms p (c # cs) of
        Some n \<Rightarrow> Some (i + n)
      | None \<Rightarrow> if st then None else scan p st cs (Suc i))"

definition RegExpBuiltinExec :: "RegExp \<Rightarrow> jsstring \<Rightarrow> nat option \<times> RegExp" where
  "RegExpBuiltinExec R S =
     (let stateful = global R \<or> sticky R;
          i = (if stateful then lastIndex R else 0)
      in if i > length S then (None, if stateful then R\<lparr>lastIndex := 0\<rparr> else R)
         else (case scan (pattern R) (sticky R) (drop i S) i of
                 None \<Rightarrow> (None, if stateful then R\<lparr>lastIndex := 0\<rparr> else R)
               | Some e \<Rightarrow> (Some e, if stateful then R\<lparr>lastIndex := e\<rparr> else R)))"

text \<open>\<^verbatim>\<open>RegExp.prototype.test\<close>: whether the search found a match, and the object after it.\<close>

definition RegExp_test :: "RegExp \<Rightarrow> jsstring \<Rightarrow> bool \<times> RegExp" where
  "RegExp_test R S = (case RegExpBuiltinExec R S of (m, R') \<Rightarrow> (m \<noteq> None, R'))"

section \<open>\<^verbatim>\<open>validatePhysics\<close>\<close>

definition lit :: "char \<Rightarrow> re_term" where
  "lit c = Term (PatternChar (cu c)) One"

text \<open>\<^verbatim>\<open>/cube\(\[\d+,\s*\d+,\s*[01]\.\d+\]/\<close>\<close>

definition thinWallsPattern :: re_pattern where
  "thinWallsPattern =
     [lit CHR ''c'', lit CHR ''u'', lit CHR ''b'', lit CHR ''e'', lit CHR ''('', lit CHR ''['',
      Term Digit OneOrMore, lit CHR '','', Term Space ZeroOrMore,
      Term Digit OneOrMore, lit CHR '','', Term Space ZeroOrMore,
      Term (CharClass [cu CHR ''0'', cu CHR ''1'']) One, lit CHR ''.'', Term Digit OneOrMore,
      lit CHR '']'']"

text \<open>\<^verbatim>\<open>/rotate\(\[90,\s*0,\s*0\]/\<close>\<close>

definition complexOverhangsPattern :: re_pattern where
  "complexOverhangsPattern =
     [lit CHR ''r'', lit CHR ''o'', lit CHR ''t'', lit CHR ''a'', lit CHR ''t'', lit CHR ''e'',
      lit CHR ''('', lit CHR ''['', lit CHR ''9'', lit CHR ''0'', lit CHR '','',
      Term Space ZeroOrMore, lit CHR ''0'', lit CHR '','', Term Space ZeroOrMore,
      lit CHR ''0'', lit CHR '']'']"

definition hasThinWalls :: "jsstring \<Rightarrow> bool" where
  "hasThinWalls openSCADCode = fst (RegExp_test (RegExp_literal thinWallsPattern) openSCADCode)"

definition hasComplexOverhangs :: "jsstring \<Rightarrow> bool" where
  "hasComplexOverhangs openSCADCode =
     fst (RegExp_test (RegExp_literal complexOverhangsPattern) openSCADCode)"

definition validatePhysics :: "jsstring \<Rightarrow> jsval" where
  "validatePhysics openSCADCode =
     (let wallThickness = (if hasThinWalls openSCADCode then 1.0 else 2.0);
          maxOverhang = (if hasComplexOverhangs openSCADCode then 90 else 30)
      in JObj
        [(''centerOfGravity'',
            JObj [(''x'', JNum 0), (''y'', JNum 0), (''stable'', JBool True)]),
         (''wallThickness'',
            JObj [(''min'', JNum wallThickness), (''ok'', JBool (wallThickness \<ge> 1.5))]),
         (''overhangAngle'',
            JObj [(''max'', JNum maxOverhang), (''ok'', JBool (maxOverhang \<le> 45))])])"

section \<open>What it means for a pattern to match\<close>

text \<open>
  The language of a pattern, stated without reference to backtracking: the words it matches
  exactly, and the inputs that contain such a word. This is the reading of "the string
  matches the regex"; it is compared with the matcher above in \<open>RegExp_test_literal\<close>.
\<close>

fun matchesExactly :: "re_pattern \<Rightarrow> jsstring \<Rightarrow> bool" where
  "matchesExactly [] w = (w = [])"
| "matchesExactly (Term a One # ts) w =
     (\<exists>c v. w = c # v \<and> atomMatches a c \<and> matchesExactly ts v)"
| "matchesExactly (Term a OneOrMore # ts) w =
     (\<exists>u v. w = u @ v \<and> u \<noteq> [] \<and> list_all (atomMatches a) u \<and> matchesExactly ts v)"
| "matchesExactly (Term a ZeroOrMore # ts) w =
     (\<exists>u v. w = u @ v \<and> list_all (atomMatches a) u \<and> matchesExactly ts v)"

definition containsMatch :: "re_pattern \<Rightarrow> jsstring \<Rightarrow> bool" where
  "containsMatch p s = (\<exists>pre w post. s = pre @ w @ post \<and> matchesExactly p w)"

section \<open>Reading reports, and the inputs of the properties\<close>

text \<open>Nested property access \<^verbatim>\<open>r.k1.k2\<close>; \<open>None\<close> as soon as a property is missing.\<close>

fun path :: "string list \<Rightarrow> jsval \<Rightarrow> jsval option" where
  "path [] v = Some v"
| "path (k # ks) v = (case field k v of None \<Rightarrow> None | Some v' \<Rightarrow> path ks v')"

text \<open>The report in which every check passes: what the source returns when neither pattern matches.\<close>

definition allClearReport :: jsval where
  "allClearReport = JObj
     [(''centerOfGravity'', JObj [(''x'', JNum 0), (''y'', JNum 0), (''stable'', JBool True)]),
      (''wallThickness'', JObj [(''min'', JNum 2), (''ok'', JBool True)]),
      (''overhangAngle'', JObj [(''max'', JNum 30), (''ok'', JBool True)])]"

text \<open>The OpenSCAD text of a cube whose three edges are written \<open>e\<close>: \<^verbatim>\<open>cube([e,e,e]);\<close>\<close>

definition cubeCode :: "jsstring \<Rightarrow> jsstring" where
  "cubeCode e = js ''cube(['' @ e @ js '','' @ e @ js '','' @ e @ js '']);''"

section \<open>The call, with the store of \<^verbatim>\<open>RegExp\<close> objects made explicit\<close>

text \<open>
  \<^verbatim>\<open>RegExp\<close> objects live in the store and \<^verbatim>\<open>test\<close> reads and writes the object it is
  called on. The store is the list of the objects allocated so far; a reference is an
  index into it. Evaluating a regular expression literal allocates a new object, as every
  evaluation of the literal does; references come from \<open>new_RegExp\<close> only, so they are
  always in range.
\<close>

type_synonym store = "RegExp list"

definition new_RegExp :: "re_pattern \<Rightarrow> store \<Rightarrow> nat \<times> store" where
  "new_RegExp p h = (length h, h @ [RegExp_literal p])"

definition store_test :: "nat \<Rightarrow> jsstring \<Rightarrow> store \<Rightarrow> bool \<times> store" where
  "store_test a S h = (case RegExp_test (h ! a) S of (b, R') \<Rightarrow> (b, h[a := R']))"

text \<open>
  The body of \<^verbatim>\<open>validatePhysics\<close>, statement by statement, run in a store \<open>h\<close> that may
  already hold any objects in any state: the report and the store it leaves.
\<close>

definition validatePhysics_call :: "store \<Rightarrow> jsstring \<Rightarrow> jsval \<times> store" where
  "validatePhysics_call h openSCADCode =
     (let (r1, h1) = new_RegExp thinWallsPattern h;
          (hasThinWalls, h2) = store_test r1 openSCADCode h1;
          (r2, h3) = new_RegExp complexOverhangsPattern h2;
          (hasComplexOverhangs, h4) = store_test r2 openSCADCode h3;
          wallThickness = (if hasThinWalls then 1.0 else 2.0);
          maxOverhang = (if hasComplexOverhangs then 90 else 30)
      in (JObj
        [(''centerOfGravity'',
            JObj [(''x'', JNum 0), (''y'', JNum 0), (''stable'', JBool True)]),
         (''wallThickness'',
            JObj [(''min'', JNum wallThickness), (''ok'', JBool (wallThickness \<ge> 1.5))]),
         (''overhangAngle'',
            JObj [(''max'', JNum maxOverhang), (''ok'', JBool (maxOverhang \<le> 45))])],
         h4))"

section \<open>The matcher finds exactly the matches of the pattern\<close>

lemmas run_simps =
  validatePhysics_def hasThinWalls_def hasComplexOverhangs_def RegExp_test_def
  RegExpBuiltinExec_def RegExp_literal_def thinWallsPattern_def complexOverhangsPattern_def
  lit_def js_def cu_def isDigit_def isWhiteSpace_def cubeCode_def allClearReport_def

lemma matchTerms_sound:
  "matchTerms p s = Some n \<Longrightarrow> n \<le> length s \<and> matchesExactly p (take n s)"
proof (induction p s arbitrary: n rule: matchTerms.induct)
  case (1 s)
  then show ?case by simp
next
  case (2 a ts)
  then show ?case by simp
next
  case (3 a ts c cs)
  then show ?case by (auto split: if_splits)
next
  case (4 a ts)
  then show ?case by simp
next
  case (5 a ts c cs)
  from "5.prems" obtain m where am: "atomMatches a c"
    and m: "matchTerms (Term a ZeroOrMore # ts) cs = Some m" and n: "n = Suc m"
    by (auto split: if_splits)
  from "5.IH"[OF am m] obtain u v where le: "m \<le> length cs" and uv: "take m cs = u @ v"
    and u: "list_all (atomMatches a) u" and v: "matchesExactly ts v"
    by auto
  have "take n (c # cs) = (c # u) @ v" using n uv by simp
  moreover have "list_all (atomMatches a) (c # u)" using am u by simp
  ultimately have "matchesExactly (Term a OneOrMore # ts) (take n (c # cs))"
    using v by (metis list.distinct(1) matchesExactly.simps(3))
  then show ?case using le n by simp
next
  case (6 a ts)
  then have "n \<le> length ([]::jsstring) \<and> matchesExactly ts (take n [])" by simp
  then show ?case by auto
next
  case (7 a ts c cs)
  show ?case
  proof (cases "atomMatches a c \<and> matchTerms (Term a ZeroOrMore # ts) cs \<noteq> None")
    case True
    then obtain m where am: "atomMatches a c"
      and m: "matchTerms (Term a ZeroOrMore # ts) cs = Some m" by auto
    with "7.prems" have n: "n = Suc m" by simp
    from "7.IH"(1)[OF am m] obtain u v where le: "m \<le> length cs" and uv: "take m cs = u @ v"
      and u: "list_all (atomMatches a) u" and v: "matchesExactly ts v"
      by auto
    have "take n (c # cs) = (c # u) @ v" using n uv by simp
    moreover have "list_all (atomMatches a) (c # u)" using am u by simp
    ultimately have "matchesExactly (Term a ZeroOrMore # ts) (take n (c # cs))"
      using v by (metis matchesExactly.simps(4))
    then show ?thesis using le n by simp
  next
    case False
    then have none: "(if atomMatches a c
        then map_option Suc (matchTerms (Term a ZeroOrMore # ts) cs) else None) = None"
      by auto
    with "7.prems" have "matchTerms ts (c # cs) = Some n" by simp
    from "7.IH"(2)[OF none this]
    have "n \<le> length (c # cs)" and "matchesExactly ts (take n (c # cs))" by auto
    moreover have "take n (c # cs) = [] @ take n (c # cs)" by simp
    moreover have "list_all (atomMatches a) []" by simp
    ultimately show ?thesis
      by (metis matchesExactly.simps(4))
  qed
qed

lemma matchTerms_star:
  "list_all (atomMatches a) u \<Longrightarrow> matchTerms ts r \<noteq> None \<Longrightarrow>
   matchTerms (Term a ZeroOrMore # ts) (u @ r) \<noteq> None"
proof (induction u)
  case Nil
  then show ?case by (cases r) (auto split: option.splits)
next
  case (Cons c u)
  then show ?case by (auto split: option.splits)
qed

lemma matchTerms_complete:
  "matchesExactly p w \<Longrightarrow> matchTerms p (w @ post) \<noteq> None"
proof (induction p arbitrary: w)
  case Nil
  then show ?case by simp
next
  case (Cons t ts)
  obtain a q where t: "t = Term a q" by (cases t)
  show ?case
  proof (cases q)
    case One
    with t Cons.prems obtain c v where "w = c # v" "atomMatches a c" "matchesExactly ts v"
      by auto
    with Cons.IH[of v] t One show ?thesis by auto
  next
    case OneOrMore
    with t Cons.prems obtain u v where w: "w = u @ v" and ne: "u \<noteq> []"
      and u: "list_all (atomMatches a) u" and v: "matchesExactly ts v" by auto
    from ne obtain c u' where cu: "u = c # u'" by (cases u) auto
    with u have "atomMatches a c" "list_all (atomMatches a) u'" by auto
    moreover from this(2) Cons.IH[OF v]
    have "matchTerms (Term a ZeroOrMore # ts) (u' @ (v @ post)) \<noteq> None"
      by (rule matchTerms_star)
    ultimately show ?thesis using t OneOrMore w cu by auto
  next
    case ZeroOrMore
    with t Cons.prems obtain u v where w: "w = u @ v"
      and u: "list_all (atomMatches a) u" and v: "matchesExactly ts v" by auto
    from u Cons.IH[OF v]
    have "matchTerms (Term a ZeroOrMore # ts) (u @ (v @ post)) \<noteq> None"
      by (rule matchTerms_star)
    then show ?thesis using t ZeroOrMore w by simp
  qed
qed

lemma matchTerms_prefix:
  "matchTerms p s \<noteq> None \<longleftrightarrow> (\<exists>w post. s = w @ post \<and> matchesExactly p w)"
proof
  assume "matchTerms p s \<noteq> None"
  then obtain n where "matchTerms p s = Some n" by auto
  from matchTerms_sound[OF this] have "matchesExactly p (take n s)" by simp
  moreover have "s = take n s @ drop n s" by simp
  ultimately show "\<exists>w post. s = w @ post \<and> matchesExactly p w" by blast
next
  assume "\<exists>w post. s = w @ post \<and> matchesExactly p w"
  then show "matchTerms p s \<noteq> None" using matchTerms_complete by blast
qed

lemma scan_containsMatch:
  "scan p False s i \<noteq> None \<longleftrightarrow> containsMatch p s"
proof (induction s arbitrary: i)
  case Nil
  have "containsMatch p [] \<longleftrightarrow> matchesExactly p []"
    by (simp add: containsMatch_def)
  moreover have "matchTerms p [] \<noteq> None \<longleftrightarrow> matchesExactly p []"
    using matchTerms_prefix[of p "[]"] by simp
  ultimately show ?case by (cases "matchTerms p []") auto
next
  case (Cons c cs)
  have "containsMatch p (c # cs) \<longleftrightarrow>
        (\<exists>w post. c # cs = w @ post \<and> matchesExactly p w) \<or> containsMatch p cs"
    unfolding containsMatch_def
  proof (intro iffI)
    assume "\<exists>pre w post. c # cs = pre @ w @ post \<and> matchesExactly p w"
    then obtain pre w post where eq: "c # cs = pre @ w @ post" and m: "matchesExactly p w"
      by blast
    show "(\<exists>w post. c # cs = w @ post \<and> matchesExactly p w) \<or>
          (\<exists>pre w post. cs = pre @ w @ post \<and> matchesExactly p w)"
    proof (cases pre)
      case Nil
      with eq m show ?thesis by auto
    next
      case (Cons x pre')
      with eq have "cs = pre' @ w @ post" by simp
      with m show ?thesis by blast
    qed
  next
    assume "(\<exists>w post. c # cs = w @ post \<and> matchesExactly p w) \<or>
            (\<exists>pre w post. cs = pre @ w @ post \<and> matchesExactly p w)"
    then show "\<exists>pre w post. c # cs = pre @ w @ post \<and> matchesExactly p w"
    proof
      assume "\<exists>w post. c # cs = w @ post \<and> matchesExactly p w"
      then obtain w post where "c # cs = [] @ w @ post" "matchesExactly p w" by auto
      then show ?thesis by blast
    next
      assume "\<exists>pre w post. cs = pre @ w @ post \<and> matchesExactly p w"
      then obtain pre w post where "c # cs = (c # pre) @ w @ post" "matchesExactly p w" by auto
      then show ?thesis by blast
    qed
  qed
  moreover have "scan p False (c # cs) i \<noteq> None \<longleftrightarrow>
        matchTerms p (c # cs) \<noteq> None \<or> scan p False cs (Suc i) \<noteq> None"
    by (auto split: option.splits)
  ultimately show ?case using Cons.IH[of "Suc i"] matchTerms_prefix[of p "c # cs"] by simp
qed

lemma RegExp_test_literal:
  "RegExp_test (RegExp_literal p) s = (containsMatch p s, RegExp_literal p)"
  using scan_containsMatch[of p s 0]
  by (auto simp: RegExp_test_def RegExpBuiltinExec_def RegExp_literal_def split: option.splits)

lemma RegExp_test_stateless:
  "\<not> global R \<Longrightarrow> \<not> sticky R \<Longrightarrow>
   RegExp_test (R\<lparr>lastIndex := k\<rparr>) s = (fst (RegExp_test R s), R\<lparr>lastIndex := k\<rparr>)"
  by (auto simp: RegExp_test_def RegExpBuiltinExec_def split: option.splits)

section \<open>Characters every match contains\<close>

lemma matchesExactly_required:
  "matchesExactly p w \<Longrightarrow> Term (PatternChar c) One \<in> set p \<Longrightarrow> c \<in> set w"
proof (induction p arbitrary: w)
  case Nil
  then show ?case by simp
next
  case (Cons t ts)
  obtain a q where t: "t = Term a q" by (cases t)
  show ?case
  proof (cases q)
    case One
    with t Cons.prems(1) obtain d v where w: "w = d # v" and d: "atomMatches a d"
      and v: "matchesExactly ts v" by auto
    show ?thesis
    proof (cases "t = Term (PatternChar c) One")
      case True
      with t d w show ?thesis by auto
    next
      case False
      with Cons.prems(2) have "Term (PatternChar c) One \<in> set ts" by simp
      from Cons.IH[OF v this] w show ?thesis by simp
    qed
  next
    case OneOrMore
    with t Cons.prems(1) obtain u v where w: "w = u @ v" and v: "matchesExactly ts v" by auto
    from t OneOrMore Cons.prems(2) have "Term (PatternChar c) One \<in> set ts" by simp
    from Cons.IH[OF v this] w show ?thesis by simp
  next
    case ZeroOrMore
    with t Cons.prems(1) obtain u v where w: "w = u @ v" and v: "matchesExactly ts v" by auto
    from t ZeroOrMore Cons.prems(2) have "Term (PatternChar c) One \<in> set ts" by simp
    from Cons.IH[OF v this] w show ?thesis by simp
  qed
qed

lemma containsMatch_required:
  "containsMatch p s \<Longrightarrow> lit c \<in> set p \<Longrightarrow> cu c \<in> set s"
  unfolding containsMatch_def lit_def using matchesExactly_required by fastforce

lemma hasThinWalls_containsMatch: "hasThinWalls s = containsMatch thinWallsPattern s"
  by (simp add: hasThinWalls_def RegExp_test_literal)

lemma hasComplexOverhangs_containsMatch:
  "hasComplexOverhangs s = containsMatch complexOverhangsPattern s"
  by (simp add: hasComplexOverhangs_def RegExp_test_literal)

lemma hasThinWalls_required:
  "hasThinWalls s \<Longrightarrow> cu CHR ''('' \<in> set s \<and> cu CHR ''.'' \<in> set s"
  unfolding hasThinWalls_containsMatch
  by (auto intro!: containsMatch_required simp: thinWallsPattern_def)

lemma hasComplexOverhangs_required:
  "hasComplexOverhangs s \<Longrightarrow> cu CHR ''('' \<in> set s \<and> cu CHR ''r'' \<in> set s"
  unfolding hasComplexOverhangs_containsMatch
  by (auto intro!: containsMatch_required simp: complexOverhangsPattern_def)

lemma validatePhysics_report:
  "validatePhysics s = JObj
     [(''centerOfGravity'', JObj [(''x'', JNum 0), (''y'', JNum 0), (''stable'', JBool True)]),
      (''wallThickness'',
         JObj [(''min'', JNum (if hasThinWalls s then 1 else 2)), (''ok'', JBool (\<not> hasThinWalls s))]),
      (''overhangAngle'',
         JObj [(''max'', JNum (if hasComplexOverhangs s then 90 else 30)),
               (''ok'', JBool (\<not> hasComplexOverhangs s))])]"
  by (simp add: validatePhysics_def)

lemma validatePhysics_allClear:
  "\<not> hasThinWalls s \<Longrightarrow> \<not> hasComplexOverhangs s \<Longrightarrow> validatePhysics s = allClearReport"
  by (simp add: validatePhysics_report allClearReport_def)

lemma isDigit_not_dot: "isDigit c \<Longrightarrow> c \<noteq> cu CHR ''.'' \<and> c \<noteq> cu CHR ''r''"
  by (auto simp: isDigit_def cu_def)

lemma cubeCode_chars:
  "list_all isDigit e \<Longrightarrow> cu CHR ''.'' \<notin> set (cubeCode e) \<and> cu CHR ''r'' \<notin> set (cubeCode e)"
proof -
  assume "list_all isDigit e"
  then have "cu CHR ''.'' \<notin> set e \<and> cu CHR ''r'' \<notin> set e"
    using isDigit_not_dot by (auto simp: list_all_iff)
  moreover have "cu CHR ''.'' \<notin> set (js ''cube([,]);'') \<and> cu CHR ''r'' \<notin> set (js ''cube([,]);'')"
    by (simp add: js_def cu_def)
  moreover have "set (cubeCode e) = set e \<union> set (js ''cube([,]);'')"
    by (auto simp: cubeCode_def js_def)
  ultimately show ?thesis by simp
qed

section \<open>The store\<close>

lemma store_test_new_RegExp:
  "store_test (length h) s (h @ [RegExp_literal p])
     = (containsMatch p s, h @ [RegExp_literal p])"
  by (simp add: store_test_def RegExp_test_literal)

lemma validatePhysics_call_eq:
  "validatePhysics_call h s =
     (validatePhysics s,
      h @ [RegExp_literal thinWallsPattern, RegExp_literal complexOverhangsPattern])"
proof -
  have "store_test (length (h @ [RegExp_literal thinWallsPattern])) s
          ((h @ [RegExp_literal thinWallsPattern]) @ [RegExp_literal complexOverhangsPattern])
        = (containsMatch complexOverhangsPattern s,
           (h @ [RegExp_literal thinWallsPattern]) @ [RegExp_literal complexOverhangsPattern])"
    by (rule store_test_new_RegExp)
  then show ?thesis
    by (simp add: validatePhysics_call_def new_RegExp_def store_test_new_RegExp
          validatePhysics_def hasThinWalls_containsMatch hasComplexOverhangs_containsMatch)
qed

text \<open>
  The store is not idle in this model: an expression with the \<^verbatim>\<open>g\<close> flag answers
  differently on its second \<^verbatim>\<open>test\<close> of the same text, because the first moved its
  \<^verbatim>\<open>lastIndex\<close>.
\<close>

lemma global_test_depends_on_store:
  "store_test 0 (js ''cube([1,1,0.5])'') [(RegExp_literal thinWallsPattern)\<lparr>global := True\<rparr>]
     = (True, [(RegExp_literal thinWallsPattern)\<lparr>global := True, lastIndex := 14\<rparr>])
   \<and> store_test 0 (js ''cube([1,1,0.5])'')
         [(RegExp_literal thinWallsPattern)\<lparr>global := True, lastIndex := 14\<rparr>]
     = (False, [(RegExp_literal thinWallsPattern)\<lparr>global := True, lastIndex := 0\<rparr>])"
  by (simp add: store_test_def run_simps)

section \<open>Properties of \<^verbatim>\<open>validatePhysics\<close>\<close>

subsection \<open>Degenerate input\<close>

text \<open>
  C1, as the code has it: \<^verbatim>\<open>validatePhysics\<close> has no Input Error outcome. Every input
  string gets a complete report with the three fields of the object literal; and text
  that contains no opening parenthesis at all (the empty string, blank text, the word
  \<^verbatim>\<open>NaN\<close>) can match neither pattern, so its report is the all-clear one, marked stable.
\<close>

theorem validatePhysics_degenerate_input:
  "keys (validatePhysics s) = [''centerOfGravity'', ''wallThickness'', ''overhangAngle'']
   \<and> (cu CHR ''('' \<notin> set s \<longrightarrow> validatePhysics s = allClearReport)"
proof
  show "keys (validatePhysics s) = [''centerOfGravity'', ''wallThickness'', ''overhangAngle'']"
    by (simp add: validatePhysics_report)
next
  show "cu CHR ''('' \<notin> set s \<longrightarrow> validatePhysics s = allClearReport"
    using hasThinWalls_required[of s] hasComplexOverhangs_required[of s]
      validatePhysics_allClear[of s] by blast
qed

text \<open>The theorem at the text \<^verbatim>\<open>NaN\<close>.\<close>

theorem validatePhysics_degenerate_input_witness:
  "cu CHR ''('' \<notin> set (js ''NaN'') \<and> validatePhysics (js ''NaN'') = allClearReport
   \<and> keys (validatePhysics (js ''NaN'')) = [''centerOfGravity'', ''wallThickness'', ''overhangAngle'']"
proof -
  have h: "cu CHR ''('' \<notin> set (js ''NaN'')" by (simp add: js_def cu_def)
  from validatePhysics_degenerate_input[of "js ''NaN''"] h show ?thesis by blast
qed

text \<open>
  The empty text, and a polyhedron with a NaN coordinate and no faces, both get a report
  that marks the shape stable and passes both checks.
\<close>

theorem validatePhysics_empty_input_reported_stable:
  "path [''centerOfGravity'', ''stable''] (validatePhysics []) = Some (JBool True)
   \<and> path [''wallThickness'', ''ok''] (validatePhysics []) = Some (JBool True)
   \<and> path [''overhangAngle'', ''ok''] (validatePhysics []) = Some (JBool True)
   \<and> path [''centerOfGravity'', ''stable'']
        (validatePhysics (js ''polyhedron(points=[[NaN,0,0]],faces=[]);'')) = Some (JBool True)"
  by (simp add: run_simps)

subsection \<open>Text, not geometry\<close>

text \<open>
  C2, as the code has it: the wall-thickness and overhang results come from the two
  pattern tests on the text and from nothing else. Two texts receive the same report
  exactly when they agree on whether each of the two patterns matches.
\<close>

theorem validatePhysics_depends_on_patterns_only:
  "validatePhysics s = validatePhysics t \<longleftrightarrow>
     containsMatch thinWallsPattern s = containsMatch thinWallsPattern t
     \<and> containsMatch complexOverhangsPattern s = containsMatch complexOverhangsPattern t"
  by (auto simp: validatePhysics_report hasThinWalls_containsMatch
        hasComplexOverhangs_containsMatch split: if_splits)

text \<open>Two different thin slabs: both match the first pattern only, and get one report.\<close>

theorem validatePhysics_depends_on_patterns_only_witness:
  "validatePhysics (js ''cube([10,10,1.0]);'') = validatePhysics (js ''cube([2, 3, 0.5]);'')
   \<and> containsMatch thinWallsPattern (js ''cube([10,10,1.0]);'')
   \<and> containsMatch thinWallsPattern (js ''cube([2, 3, 0.5]);'')"
proof -
  have a: "hasThinWalls (js ''cube([10,10,1.0]);'')" by (simp add: run_simps)
  have b: "hasThinWalls (js ''cube([2, 3, 0.5]);'')" by (simp add: run_simps)
  have c: "\<not> hasComplexOverhangs (js ''cube([10,10,1.0]);'')" by (simp add: run_simps)
  have d: "\<not> hasComplexOverhangs (js ''cube([2, 3, 0.5]);'')" by (simp add: run_simps)
  from a b c d
    validatePhysics_depends_on_patterns_only
      [of "js ''cube([10,10,1.0]);''" "js ''cube([2, 3, 0.5]);''"]
  show ?thesis
    by (simp add: hasThinWalls_containsMatch hasComplexOverhangs_containsMatch)
qed

text \<open>
  OpenSCAD ignores white space between tokens, so each pair below describes one solid;
  a blank after the opening parenthesis changes the wall-thickness report of the slab
  and the overhang report of the rotated cube.
\<close>

theorem validatePhysics_same_solid_different_reports:
  "field ''wallThickness'' (validatePhysics (js ''cube([10,10,1.0]);''))
     = Some (JObj [(''min'', JNum 1), (''ok'', JBool False)])
   \<and> field ''wallThickness'' (validatePhysics (js ''cube( [10,10,1.0]);''))
     = Some (JObj [(''min'', JNum 2), (''ok'', JBool True)])
   \<and> field ''overhangAngle'' (validatePhysics (js ''rotate([90,0,0]) cube(5);''))
     = Some (JObj [(''max'', JNum 90), (''ok'', JBool False)])
   \<and> field ''overhangAngle'' (validatePhysics (js ''rotate( [90,0,0]) cube(5);''))
     = Some (JObj [(''max'', JNum 30), (''ok'', JBool True)])"
  by (simp add: run_simps)

subsection \<open>Thresholds\<close>

text \<open>
  C3, as the code has it: the wall-thickness check passes exactly when the reported minimum
  is at least 1.5, and 1.5 is a constant of the code. \<^verbatim>\<open>validatePhysics\<close> takes the text and
  nothing else, so no minimum can be supplied or overridden: a threshold \<open>t\<close> agrees with
  the verdict on every input only when it lies between the two values the minimum can
  take, \<open>1 < t \<le> 2\<close>.
\<close>

theorem wallThickness_threshold_is_fixed:
  "(\<exists>m b. field ''wallThickness'' (validatePhysics s)
              = Some (JObj [(''min'', JNum m), (''ok'', JBool b)])
          \<and> b = (m \<ge> 1.5))
   \<and> ((\<forall>s'. \<exists>m b. field ''wallThickness'' (validatePhysics s')
                     = Some (JObj [(''min'', JNum m), (''ok'', JBool b)])
                 \<and> b = (m \<ge> t))
        \<longleftrightarrow> 1 < t \<and> t \<le> 2)"
proof -
  have fixed: "\<exists>m b. field ''wallThickness'' (validatePhysics s)
              = Some (JObj [(''min'', JNum m), (''ok'', JBool b)]) \<and> b = (m \<ge> 1.5)"
    by (simp add: validatePhysics_report)
  have only_if: "1 < t \<and> t \<le> 2"
    if all: "\<forall>s'. \<exists>m b. field ''wallThickness'' (validatePhysics s')
                     = Some (JObj [(''min'', JNum m), (''ok'', JBool b)]) \<and> b = (m \<ge> t)"
  proof -
    have thin: "field ''wallThickness'' (validatePhysics (js ''cube([10,10,1.0]);''))
                  = Some (JObj [(''min'', JNum 1), (''ok'', JBool False)])"
      by (simp add: run_simps)
    have thick: "field ''wallThickness'' (validatePhysics [])
                  = Some (JObj [(''min'', JNum 2), (''ok'', JBool True)])"
      by (simp add: run_simps)
    from all[rule_format, of "js ''cube([10,10,1.0]);''"] thin have "\<not> 1 \<ge> t" by auto
    moreover from all[rule_format, of "[]"] thick have "2 \<ge> t" by auto
    ultimately show ?thesis by simp
  qed
  have if_part: "\<forall>s'. \<exists>m b. field ''wallThickness'' (validatePhysics s')
                     = Some (JObj [(''min'', JNum m), (''ok'', JBool b)]) \<and> b = (m \<ge> t)"
    if "1 < t \<and> t \<le> 2"
    using that by (simp add: validatePhysics_report)
  from fixed only_if if_part show ?thesis by blast
qed

text \<open>The theorem at a slab of thickness 1.0 and at the threshold 3, which is not honoured.\<close>

theorem wallThickness_threshold_is_fixed_witness:
  "(\<exists>m b. field ''wallThickness'' (validatePhysics (js ''cube([10,10,1.0]);''))
              = Some (JObj [(''min'', JNum m), (''ok'', JBool b)])
          \<and> b = (m \<ge> 1.5) \<and> m = 1 \<and> \<not> b)
   \<and> \<not> (\<forall>s'. \<exists>m b. field ''wallThickness'' (validatePhysics s')
                     = Some (JObj [(''min'', JNum m), (''ok'', JBool b)])
                 \<and> b = (m \<ge> 3))"
proof -
  note inst = wallThickness_threshold_is_fixed[of "js ''cube([10,10,1.0]);''" 3]
  from inst obtain m b where
    h: "field ''wallThickness'' (validatePhysics (js ''cube([10,10,1.0]);''))
             = Some (JObj [(''min'', JNum m), (''ok'', JBool b)])" and b: "b = (m \<ge> 1.5)"
    by blast
  have "field ''wallThickness'' (validatePhysics (js ''cube([10,10,1.0]);''))
          = Some (JObj [(''min'', JNum 1), (''ok'', JBool False)])"
    by (simp add: run_simps)
  with h have "m = 1" and "\<not> b" by simp_all
  with h b have first: "\<exists>m b. field ''wallThickness'' (validatePhysics (js ''cube([10,10,1.0]);''))
              = Some (JObj [(''min'', JNum m), (''ok'', JBool b)])
          \<and> b = (m \<ge> 1.5) \<and> m = 1 \<and> \<not> b" by blast
  have "\<not> ((1::real) < 3 \<and> (3::real) \<le> 2)" by simp
  with inst have second: "\<not> (\<forall>s'. \<exists>m b. field ''wallThickness'' (validatePhysics s')
                     = Some (JObj [(''min'', JNum m), (''ok'', JBool b)])
                 \<and> b = (m \<ge> 3))" by blast
  from first second show ?thesis by blast
qed

text \<open>
  A caller who wants a minimum of 0.5 gets the slab of thickness 1.0 failed all the same
  (reported minimum 1, not ok); a caller who wants a minimum of 3 gets the cube of edge 10
  passed (reported minimum 2, ok).
\<close>

theorem wallThickness_ignores_supplied_threshold:
  "field ''wallThickness'' (validatePhysics (js ''cube([10,10,1.0]);''))
     = Some (JObj [(''min'', JNum 1), (''ok'', JBool False)])
   \<and> \<not> (\<exists>m b. field ''wallThickness'' (validatePhysics (js ''cube([10,10,1.0]);''))
                = Some (JObj [(''min'', JNum m), (''ok'', JBool b)]) \<and> b = (m \<ge> 0.5))
   \<and> field ''wallThickness'' (validatePhysics (js ''cube([10,10,10]);''))
     = Some (JObj [(''min'', JNum 2), (''ok'', JBool True)])
   \<and> \<not> (\<exists>m b. field ''wallThickness'' (validatePhysics (js ''cube([10,10,10]);''))
                = Some (JObj [(''min'', JNum m), (''ok'', JBool b)]) \<and> b = (m \<ge> 3))"
  by (simp add: run_simps)

text \<open>
  C4, as the code has it: the overhang check passes exactly when the reported worst angle
  is at most 45 degrees, and 45 is a constant of the code. No maximum angle can be supplied
  or overridden: a threshold \<open>t\<close> agrees with the verdict on every input only when
  \<open>30 \<le> t < 90\<close>. No area fraction is computed or reported (the \<^verbatim>\<open>overhangAngle\<close> object has
  the two fields \<^verbatim>\<open>max\<close> and \<^verbatim>\<open>ok\<close>), so there is no negligible-area exception.
\<close>

theorem overhangAngle_threshold_is_fixed:
  "(\<exists>m b. field ''overhangAngle'' (validatePhysics s)
              = Some (JObj [(''max'', JNum m), (''ok'', JBool b)])
          \<and> b = (m \<le> 45))
   \<and> path [''overhangAngle'', ''worstAreaFraction''] (validatePhysics s) = None
   \<and> ((\<forall>s'. \<exists>m b. field ''overhangAngle'' (validatePhysics s')
                     = Some (JObj [(''max'', JNum m), (''ok'', JBool b)])
                 \<and> b = (m \<le> t))
        \<longleftrightarrow> 30 \<le> t \<and> t < 90)"
proof -
  have fixed: "\<exists>m b. field ''overhangAngle'' (validatePhysics s)
              = Some (JObj [(''max'', JNum m), (''ok'', JBool b)]) \<and> b = (m \<le> 45)"
    by (simp add: validatePhysics_report)
  have area: "path [''overhangAngle'', ''worstAreaFraction''] (validatePhysics s) = None"
    by (simp add: validatePhysics_report)
  have only_if: "30 \<le> t \<and> t < 90"
    if all: "\<forall>s'. \<exists>m b. field ''overhangAngle'' (validatePhysics s')
                     = Some (JObj [(''max'', JNum m), (''ok'', JBool b)]) \<and> b = (m \<le> t)"
  proof -
    have steep: "field ''overhangAngle'' (validatePhysics (js ''rotate([90,0,0]) cube(5);''))
                  = Some (JObj [(''max'', JNum 90), (''ok'', JBool False)])"
      by (simp add: run_simps)
    have flat: "field ''overhangAngle'' (validatePhysics [])
                  = Some (JObj [(''max'', JNum 30), (''ok'', JBool True)])"
      by (simp add: run_simps)
    from all[rule_format, of "js ''rotate([90,0,0]) cube(5);''"] steep have "\<not> 90 \<le> t"
      by auto
    moreover from all[rule_format, of "[]"] flat have "30 \<le> t" by auto
    ultimately show ?thesis by simp
  qed
  have if_part: "\<forall>s'. \<exists>m b. field ''overhangAngle'' (validatePhysics s')
                     = Some (JObj [(''max'', JNum m), (''ok'', JBool b)]) \<and> b = (m \<le> t)"
    if "30 \<le> t \<and> t < 90"
    using that by (simp add: validatePhysics_report)
  from fixed area only_if if_part show ?thesis by blast
qed

text \<open>The theorem at a rotated cube and at the threshold 90, which is not honoured.\<close>

theorem overhangAngle_threshold_is_fixed_witness:
  "(\<exists>m b. field ''overhangAngle'' (validatePhysics (js ''rotate([90, 0, 0]) cube(5);''))
              = Some (JObj [(''max'', JNum m), (''ok'', JBool b)])
          \<and> b = (m \<le> 45) \<and> m = 90 \<and> \<not> b)
   \<and> path [''overhangAngle'', ''worstAreaFraction'']
        (validatePhysics (js ''rotate([90, 0, 0]) cube(5);'')) = None
   \<and> \<not> (\<forall>s'. \<exists>m b. field ''overhangAngle'' (validatePhysics s')
                     = Some (JObj [(''max'', JNum m), (''ok'', JBool b)])
                 \<and> b = (m \<le> 90))"
proof -
  note inst = overhangAngle_threshold_is_fixed[of "js ''rotate([90, 0, 0]) cube(5);''" 90]
  from inst obtain m b where
    h: "field ''overhangAngle'' (validatePhysics (js ''rotate([90, 0, 0]) cube(5);''))
             = Some (JObj [(''max'', JNum m), (''ok'', JBool b)])" and b: "b = (m \<le> 45)"
    by blast
  have "field ''overhangAngle'' (validatePhysics (js ''rotate([90, 0, 0]) cube(5);''))
          = Some (JObj [(''max'', JNum 90), (''ok'', JBool False)])"
    by (simp add: run_simps)
  with h have "m = 90" and "\<not> b" by simp_all
  with h b have first: "\<exists>m b. field ''overhangAngle'' (validatePhysics (js ''rotate([90, 0, 0]) cube(5);''))
              = Some (JObj [(''max'', JNum m), (''ok'', JBool b)])
          \<and> b = (m \<le> 45) \<and> m = 90 \<and> \<not> b" by blast
  from inst have area: "path [''overhangAngle'', ''worstAreaFraction'']
        (validatePhysics (js ''rotate([90, 0, 0]) cube(5);'')) = None" by blast
  have "\<not> ((30::real) \<le> 90 \<and> (90::real) < 90)" by simp
  with inst have second: "\<not> (\<forall>s'. \<exists>m b. field ''overhangAngle'' (validatePhysics s')
                     = Some (JObj [(''max'', JNum m), (''ok'', JBool b)])
                 \<and> b = (m \<le> 90))" by blast
  from first area second show ?thesis by blast
qed

text \<open>
  A caller who allows overhangs up to 90 degrees gets the rotated cube failed all the same
  (reported maximum 90, not ok); a caller who allows at most 20 degrees gets a plain cube
  passed (reported maximum 30, ok). The report carries no area fraction.
\<close>

theorem overhangAngle_ignores_supplied_threshold:
  "field ''overhangAngle'' (validatePhysics (js ''rotate([90,0,0]) cube(5);''))
     = Some (JObj [(''max'', JNum 90), (''ok'', JBool False)])
   \<and> \<not> (\<exists>m b. field ''overhangAngle'' (validatePhysics (js ''rotate([90,0,0]) cube(5);''))
                = Some (JObj [(''max'', JNum m), (''ok'', JBool b)]) \<and> b = (m \<le> 90))
   \<and> field ''overhangAngle'' (validatePhysics (js ''cube([10,10,10]);''))
     = Some (JObj [(''max'', JNum 30), (''ok'', JBool True)])
   \<and> \<not> (\<exists>m b. field ''overhangAngle'' (validatePhysics (js ''cube([10,10,10]);''))
                = Some (JObj [(''max'', JNum m), (''ok'', JBool b)]) \<and> b = (m \<le> 20))
   \<and> path [''overhangAngle'', ''worstAreaFraction'']
        (validatePhysics (js ''rotate([90,0,0]) cube(5);'')) = None"
  by (simp add: run_simps)

subsection \<open>The shape of the report\<close>

text \<open>
  C5, as the code has it: the report has exactly the three fields \<^verbatim>\<open>centerOfGravity\<close>,
  \<^verbatim>\<open>wallThickness\<close> and \<^verbatim>\<open>overhangAngle\<close>; it has no overall \<^verbatim>\<open>ok\<close> and no diagnostics. It
  carries the three separate verdicts \<^verbatim>\<open>centerOfGravity.stable\<close> (always true),
  \<^verbatim>\<open>wallThickness.ok\<close> and \<^verbatim>\<open>overhangAngle.ok\<close>, and stores no conjunction of them.
\<close>

theorem validatePhysics_three_separate_verdicts:
  "keys (validatePhysics s) = [''centerOfGravity'', ''wallThickness'', ''overhangAngle'']
   \<and> field ''ok'' (validatePhysics s) = None
   \<and> field ''diagnostics'' (validatePhysics s) = None
   \<and> path [''centerOfGravity'', ''stable''] (validatePhysics s) = Some (JBool True)
   \<and> path [''wallThickness'', ''ok''] (validatePhysics s) = Some (JBool (\<not> hasThinWalls s))
   \<and> path [''overhangAngle'', ''ok''] (validatePhysics s)
       = Some (JBool (\<not> hasComplexOverhangs s))"
  by (simp add: validatePhysics_report)

theorem validatePhysics_three_separate_verdicts_witness:
  "keys (validatePhysics (js ''rotate([90,0,0]) cube([4,4,0.4]);''))
     = [''centerOfGravity'', ''wallThickness'', ''overhangAngle'']
   \<and> field ''ok'' (validatePhysics (js ''rotate([90,0,0]) cube([4,4,0.4]);'')) = None
   \<and> path [''wallThickness'', ''ok''] (validatePhysics (js ''rotate([90,0,0]) cube([4,4,0.4]);''))
       = Some (JBool False)
   \<and> path [''overhangAngle'', ''ok''] (validatePhysics (js ''rotate([90,0,0]) cube([4,4,0.4]);''))
       = Some (JBool False)"
proof -
  have a: "hasThinWalls (js ''rotate([90,0,0]) cube([4,4,0.4]);'')" by (simp add: run_simps)
  have b: "hasComplexOverhangs (js ''rotate([90,0,0]) cube([4,4,0.4]);'')"
    by (simp add: run_simps)
  from validatePhysics_three_separate_verdicts[of "js ''rotate([90,0,0]) cube([4,4,0.4]);''"] a b
  show ?thesis by simp
qed

text \<open>The report of a cube of edge 10 has no \<^verbatim>\<open>ok\<close> property to read.\<close>

theorem validatePhysics_report_has_no_overall_ok:
  "field ''ok'' (validatePhysics (js ''cube([10,10,10]);'')) = None
   \<and> keys (validatePhysics (js ''cube([10,10,10]);''))
       = [''centerOfGravity'', ''wallThickness'', ''overhangAngle'']"
  by (simp add: run_simps)

subsection \<open>A cube\<close>

text \<open>
  C6, as the code has it: for a cube of integer edge \<open>e\<close>, written \<^verbatim>\<open>cube([e,e,e]);\<close>, the
  report contains no volume and no centroid. Its \<^verbatim>\<open>centerOfGravity\<close> is the constant
  \<^verbatim>\<open>{x: 0, y: 0, stable: true}\<close>, with no z coordinate and no margin; the whole report
  is the all-clear one.
\<close>

theorem validatePhysics_cube_report:
  assumes "list_all isDigit e"
  shows "validatePhysics (cubeCode e) = allClearReport
   \<and> field ''volume'' (validatePhysics (cubeCode e)) = None
   \<and> field ''centroid'' (validatePhysics (cubeCode e)) = None
   \<and> field ''centerOfGravity'' (validatePhysics (cubeCode e))
       = Some (JObj [(''x'', JNum 0), (''y'', JNum 0), (''stable'', JBool True)])"
proof -
  from cubeCode_chars[OF assms] have "\<not> hasThinWalls (cubeCode e)"
    and "\<not> hasComplexOverhangs (cubeCode e)"
    using hasThinWalls_required hasComplexOverhangs_required by blast+
  then have "validatePhysics (cubeCode e) = allClearReport"
    by (rule validatePhysics_allClear)
  then show ?thesis by (simp add: allClearReport_def)
qed

theorem validatePhysics_cube_report_witness:
  "list_all isDigit (js ''10'')
   \<and> cubeCode (js ''10'') = js ''cube([10,10,10]);''
   \<and> validatePhysics (js ''cube([10,10,10]);'') = allClearReport
   \<and> field ''volume'' (validatePhysics (js ''cube([10,10,10]);'')) = None"
proof -
  have h: "list_all isDigit (js ''10'')" by (simp add: js_def cu_def isDigit_def)
  have c: "cubeCode (js ''10'') = js ''cube([10,10,10]);''" by (simp add: cubeCode_def js_def)
  from validatePhysics_cube_report[OF h] h c show ?thesis
    by (simp add: allClearReport_def)
qed

text \<open>
  The report of the cube of edge 10 has no volume (so none equal to 1000), no centroid,
  and no z coordinate in \<^verbatim>\<open>centerOfGravity\<close>.
\<close>

theorem validatePhysics_cube_has_no_volume:
  "field ''volume'' (validatePhysics (js ''cube([10,10,10]);'')) = None
   \<and> field ''centroid'' (validatePhysics (js ''cube([10,10,10]);'')) = None
   \<and> path [''centerOfGravity'', ''z''] (validatePhysics (js ''cube([10,10,10]);'')) = None"
  by (simp add: run_simps)

subsection \<open>Determinism\<close>

text \<open>
  C7: validation is a pure, deterministic function of its input. Run in any store, whatever
  objects it holds and whatever state they are in, the call returns the report that
  \<^verbatim>\<open>validatePhysics\<close> gives the text alone; it leaves every object that was there as it
  was (it only adds its own two expression objects); so a second call on the same input,
  run in the store the first one left, returns the identical report.
\<close>

theorem validatePhysics_call_deterministic:
  "fst (validatePhysics_call h s) = validatePhysics s
   \<and> fst (validatePhysics_call h' s) = fst (validatePhysics_call h s)
   \<and> take (length h) (snd (validatePhysics_call h s)) = h
   \<and> fst (validatePhysics_call (snd (validatePhysics_call h s)) s)
       = fst (validatePhysics_call h s)"
  by (simp add: validatePhysics_call_eq)

text \<open>
  The theorem in a store that holds an expression with the \<^verbatim>\<open>g\<close> flag whose \<^verbatim>\<open>lastIndex\<close>
  an earlier \<^verbatim>\<open>test\<close> has moved, against the empty store.
\<close>

theorem validatePhysics_call_deterministic_witness:
  "fst (validatePhysics_call
         [(RegExp_literal thinWallsPattern)\<lparr>global := True, lastIndex := 14\<rparr>]
         (js ''cube([1,1,0.5])''))
     = fst (validatePhysics_call [] (js ''cube([1,1,0.5])''))
   \<and> path [''wallThickness'', ''min'']
        (fst (validatePhysics_call
               [(RegExp_literal thinWallsPattern)\<lparr>global := True, lastIndex := 14\<rparr>]
               (js ''cube([1,1,0.5])''))) = Some (JNum 1)
   \<and> take 1 (snd (validatePhysics_call
         [(RegExp_literal thinWallsPattern)\<lparr>global := True, lastIndex := 14\<rparr>]
         (js ''cube([1,1,0.5])'')))
     = [(RegExp_literal thinWallsPattern)\<lparr>global := True, lastIndex := 14\<rparr>]"
proof -
  have v: "path [''wallThickness'', ''min''] (validatePhysics (js ''cube([1,1,0.5])''))
            = Some (JNum 1)"
    by (simp add: run_simps)
  from validatePhysics_call_deterministic
         [of "[(RegExp_literal thinWallsPattern)\<lparr>global := True, lastIndex := 14\<rparr>]"
             "js ''cube([1,1,0.5])''" "[]"] v
  show ?thesis by simp
qed

subsection \<open>The constant and the pattern-driven fields\<close>

text \<open>
  C8: for every input string the report's \<^verbatim>\<open>centerOfGravity\<close> is
  \<^verbatim>\<open>{x: 0, y: 0, stable: true}\<close>: no input is reported unstable or off centre.
\<close>

theorem centerOfGravity_constant:
  "field ''centerOfGravity'' (validatePhysics s)
     = Some (JObj [(''x'', JNum 0), (''y'', JNum 0), (''stable'', JBool True)])"
  by (simp add: validatePhysics_report)

theorem centerOfGravity_constant_witness:
  "field ''centerOfGravity'' (validatePhysics (js ''translate([500,0,0]) sphere(1);''))
     = Some (JObj [(''x'', JNum 0), (''y'', JNum 0), (''stable'', JBool True)])
   \<and> path [''centerOfGravity'', ''stable'']
        (validatePhysics (js ''translate([500,0,0]) sphere(1);'')) = Some (JBool True)"
  using centerOfGravity_constant[of "js ''translate([500,0,0]) sphere(1);''"]
  by simp

text \<open>
  C9: \<^verbatim>\<open>wallThickness.min\<close> is 1.0 when the input contains a match of
  \<^verbatim>\<open>/cube\(\[\d+,\s*\d+,\s*[01]\.\d+\]/\<close> and 2.0 otherwise; \<^verbatim>\<open>wallThickness.ok\<close> is true exactly
  when there is no match; and the minimum is never anything but 1.0 or 2.0.
\<close>

theorem wallThickness_by_pattern:
  "field ''wallThickness'' (validatePhysics s)
     = Some (JObj [(''min'', JNum (if containsMatch thinWallsPattern s then 1.0 else 2.0)),
                   (''ok'', JBool (\<not> containsMatch thinWallsPattern s))])
   \<and> (\<exists>m. path [''wallThickness'', ''min''] (validatePhysics s) = Some (JNum m)
          \<and> (m = 1.0 \<or> m = 2.0))"
  by (simp add: validatePhysics_report hasThinWalls_containsMatch)

theorem wallThickness_by_pattern_witness:
  "containsMatch thinWallsPattern (js ''cube([10, 20,  0.8]);'')
   \<and> field ''wallThickness'' (validatePhysics (js ''cube([10, 20,  0.8]);''))
       = Some (JObj [(''min'', JNum 1), (''ok'', JBool False)])
   \<and> \<not> containsMatch thinWallsPattern (js ''cube([10, 20, 2.8]);'')
   \<and> field ''wallThickness'' (validatePhysics (js ''cube([10, 20, 2.8]);''))
       = Some (JObj [(''min'', JNum 2), (''ok'', JBool True)])"
proof -
  have a: "hasThinWalls (js ''cube([10, 20,  0.8]);'')" by (simp add: run_simps)
  have b: "\<not> hasThinWalls (js ''cube([10, 20, 2.8]);'')" by (simp add: run_simps)
  from a b wallThickness_by_pattern[of "js ''cube([10, 20,  0.8]);''"]
    wallThickness_by_pattern[of "js ''cube([10, 20, 2.8]);''"]
  show ?thesis by (simp add: hasThinWalls_containsMatch)
qed

text \<open>
  C10: \<^verbatim>\<open>overhangAngle.max\<close> is 90 when the input contains a match of
  \<^verbatim>\<open>/rotate\(\[90,\s*0,\s*0\]/\<close> and 30 otherwise; \<^verbatim>\<open>overhangAngle.ok\<close> is true exactly when
  there is no match; and the maximum is never anything but 30 or 90.
\<close>

theorem overhangAngle_by_pattern:
  "field ''overhangAngle'' (validatePhysics s)
     = Some (JObj [(''max'', JNum (if containsMatch complexOverhangsPattern s then 90 else 30)),
                   (''ok'', JBool (\<not> containsMatch complexOverhangsPattern s))])
   \<and> (\<exists>m. path [''overhangAngle'', ''max''] (validatePhysics s) = Some (JNum m)
          \<and> (m = 30 \<or> m = 90))"
  by (simp add: validatePhysics_report hasComplexOverhangs_containsMatch)

theorem overhangAngle_by_pattern_witness:
  "containsMatch complexOverhangsPattern (js ''rotate([90,  0, 0]) cylinder(5);'')
   \<and> field ''overhangAngle'' (validatePhysics (js ''rotate([90,  0, 0]) cylinder(5);''))
       = Some (JObj [(''max'', JNum 90), (''ok'', JBool False)])
   \<and> \<not> containsMatch complexOverhangsPattern (js ''rotate([0, 90, 0]) cylinder(5);'')
   \<and> field ''overhangAngle'' (validatePhysics (js ''rotate([0, 90, 0]) cylinder(5);''))
       = Some (JObj [(''max'', JNum 30), (''ok'', JBool True)])"
proof -
  have a: "hasComplexOverhangs (js ''rotate([90,  0, 0]) cylinder(5);'')"
    by (simp add: run_simps)
  have b: "\<not> hasComplexOverhangs (js ''rotate([0, 90, 0]) cylinder(5);'')"
    by (simp add: run_simps)
  from a b overhangAngle_by_pattern[of "js ''rotate([90,  0, 0]) cylinder(5);''"]
    overhangAngle_by_pattern[of "js ''rotate([0, 90, 0]) cylinder(5);''"]
  show ?thesis by (simp add: hasComplexOverhangs_containsMatch)
qed

end
